theory Spec2Isabelle
  imports Main "HOL-Library.Word" "HOL-Library.Sublist"
begin

section \<open>DraftAI: the editor component of frontend/src/App.js\<close>

text \<open>
  The component keeps eight state cells (\<^verbatim>\<open>useState\<close>) and five handlers. A handler is
  a closure over the values of the render it was created in: it reads \<^verbatim>\<open>title\<close>,
  \<^verbatim>\<open>content\<close>, \<^verbatim>\<open>currentDraft\<close> and \<^verbatim>\<open>aiPrompt\<close> as they were when it was called, and
  every setter call enqueues an update that React applies in the order of the calls.
  A handler is therefore modelled as the list of effects it performs, in program order,
  computed from the state it was called in and the outcome of each awaited request;
  the state after the handler is that list applied to the state, front to back.
\<close>

subsection \<open>Strings\<close>

text \<open>
  A JavaScript string is a sequence of 16-bit code units; \<^verbatim>\<open>+\<close> is concatenation.
  The messages of the error slot are ASCII literals of the source and are kept as
  HOL strings; draft ids are opaque and compared with \<^verbatim>\<open>===\<close> only.
\<close>

type_synonym jschar = "16 word"
type_synonym jsstring = "jschar list"
type_synonym draft_id = string

definition js :: "string \<Rightarrow> jsstring" where
  "js s = map (\<lambda>c. of_nat (of_char c)) s"

text \<open>
  \<^verbatim>\<open>String.prototype.trim\<close> removes from both ends the code units of WhiteSpace (TAB, VT,
  FF, ZWNBSP and the space separators) and of LineTerminator (LF, CR, LS, PS).
\<close>

definition isWhiteSpace :: "jschar \<Rightarrow> bool" where
  "isWhiteSpace c \<longleftrightarrow>
     c = 0x0009 \<or> c = 0x000B \<or> c = 0x000C \<or> c = 0xFEFF \<or>
     c = 0x0020 \<or> c = 0x00A0 \<or> c = 0x1680 \<or> (0x2000 \<le> c \<and> c \<le> 0x200A) \<or>
     c = 0x202F \<or> c = 0x205F \<or> c = 0x3000"

definition isLineTerminator :: "jschar \<Rightarrow> bool" where
  "isLineTerminator c \<longleftrightarrow> c = 0x000A \<or> c = 0x000D \<or> c = 0x2028 \<or> c = 0x2029"

definition trimmable :: "jschar \<Rightarrow> bool" where
  "trimmable c \<longleftrightarrow> isWhiteSpace c \<or> isLineTerminator c"

definition trim :: "jsstring \<Rightarrow> jsstring" where
  "trim s = rev (dropWhile trimmable (rev (dropWhile trimmable s)))"

text \<open>A string is falsy exactly when it is empty: \<^verbatim>\<open>!s.trim()\<close>.\<close>

definition blank :: "jsstring \<Rightarrow> bool" where
  "blank s \<longleftrightarrow> trim s = []"

subsection \<open>Data\<close>

record draft =
  draft_id :: draft_id
  draft_title :: jsstring
  draft_content :: jsstring
  created_at :: jsstring
  updated_at :: jsstring

text \<open>The eight \<^verbatim>\<open>useState\<close> cells, with the source's names.\<close>

record app_state =
  drafts :: "draft list"
  currentDraft :: "draft option"
  title :: jsstring
  content :: jsstring
  isLoading :: bool
  error :: "string option"
  aiPrompt :: jsstring
  isGenerating :: bool

text \<open>The initial values given to \<^verbatim>\<open>useState\<close>.\<close>

definition initial :: app_state where
  "initial = \<lparr>drafts = [], currentDraft = None, title = [], content = [],
     isLoading = False, error = None, aiPrompt = [], isGenerating = False\<rparr>"

subsection \<open>The remote side\<close>

text \<open>The five axios calls of the source.\<close>

datatype request =
    GetDrafts
  | PostDraft jsstring jsstring
  | PutDraft draft_id jsstring jsstring
  | DeleteDraft draft_id
  | PostGenerate jsstring nat

text \<open>
  What the awaited calls resolve to: \<open>None\<close> (\<open>False\<close> for the delete, whose body is
  not read) is a rejected promise, that is a transport failure or a non-2xx status.
\<close>

record remote =
  get_drafts :: "draft list option"
  post_draft :: "jsstring \<Rightarrow> jsstring \<Rightarrow> draft option"
  put_draft :: "draft_id \<Rightarrow> jsstring \<Rightarrow> jsstring \<Rightarrow> draft option"
  delete_draft :: "draft_id \<Rightarrow> bool"
  post_generate :: "jsstring \<Rightarrow> nat \<Rightarrow> jsstring option"

subsection \<open>Effects\<close>

datatype effect =
    SetDrafts "draft list"
  | SetCurrentDraft "draft option"
  | SetTitle jsstring
  | SetContent jsstring
  | UpdateContent "jsstring \<Rightarrow> jsstring"
  | SetIsLoading bool
  | SetError "string option"
  | SetAiPrompt jsstring
  | SetIsGenerating bool
  | Net request
  | WindowConfirm string
  | ConsoleError string

fun apply_effect :: "effect \<Rightarrow> app_state \<Rightarrow> app_state" where
  "apply_effect (SetDrafts ds) s = s\<lparr>drafts := ds\<rparr>"
| "apply_effect (SetCurrentDraft d) s = s\<lparr>currentDraft := d\<rparr>"
| "apply_effect (SetTitle t) s = s\<lparr>title := t\<rparr>"
| "apply_effect (SetContent c) s = s\<lparr>content := c\<rparr>"
| "apply_effect (UpdateContent f) s = s\<lparr>content := f (content s)\<rparr>"
| "apply_effect (SetIsLoading b) s = s\<lparr>isLoading := b\<rparr>"
| "apply_effect (SetError e) s = s\<lparr>error := e\<rparr>"
| "apply_effect (SetAiPrompt p) s = s\<lparr>aiPrompt := p\<rparr>"
| "apply_effect (SetIsGenerating b) s = s\<lparr>isGenerating := b\<rparr>"
| "apply_effect (Net r) s = s"
| "apply_effect (WindowConfirm m) s = s"
| "apply_effect (ConsoleError m) s = s"

fun run :: "effect list \<Rightarrow> app_state \<Rightarrow> app_state" where
  "run [] s = s"
| "run (e # es) s = run es (apply_effect e s)"

text \<open>The requests a handler issued, in order.\<close>

fun requests :: "effect list \<Rightarrow> request list" where
  "requests [] = []"
| "requests (Net r # es) = r # requests es"
| "requests (e # es) = requests es"

subsection \<open>The handlers\<close>

definition fetchDrafts :: "remote \<Rightarrow> effect list" where
  "fetchDrafts net =
     SetError None # Net GetDrafts #
     (case get_drafts net of
        Some ds \<Rightarrow> [SetDrafts ds]
      | None \<Rightarrow> [SetError (Some ''Failed to fetch drafts''),
                 ConsoleError ''Error fetching drafts:''])"

definition createNewDraft :: "effect list" where
  "createNewDraft = [SetCurrentDraft None, SetTitle [], SetContent [], SetError None]"

definition saveDraft :: "remote \<Rightarrow> app_state \<Rightarrow> effect list" where
  "saveDraft net s =
     (if blank (title s) then [SetError (Some ''Please enter a title for your draft'')]
      else
        [SetIsLoading True, SetError None] @
        (case currentDraft s of
           Some cur \<Rightarrow>
             Net (PutDraft (draft_id cur) (title s) (content s)) #
             (case put_draft net (draft_id cur) (title s) (content s) of
                Some d \<Rightarrow> SetCurrentDraft (Some d) # fetchDrafts net @ [SetError None]
              | None \<Rightarrow> [SetError (Some ''Failed to save draft''),
                         ConsoleError ''Error saving draft:''])
         | None \<Rightarrow>
             Net (PostDraft (title s) (content s)) #
             (case post_draft net (title s) (content s) of
                Some d \<Rightarrow> SetCurrentDraft (Some d) # fetchDrafts net @ [SetError None]
              | None \<Rightarrow> [SetError (Some ''Failed to save draft''),
                         ConsoleError ''Error saving draft:''])) @
        [SetIsLoading False])"

definition loadDraft :: "draft \<Rightarrow> effect list" where
  "loadDraft d =
     [SetCurrentDraft (Some d), SetTitle (draft_title d), SetContent (draft_content d),
      SetError None]"

text \<open>
  \<open>confirmed\<close> is what \<^verbatim>\<open>window.confirm\<close> returns. The test after the two awaits reads
  \<^verbatim>\<open>currentDraft\<close> of the closure, the draft that was bound when the handler was called.
\<close>

definition deleteDraft :: "bool \<Rightarrow> remote \<Rightarrow> draft_id \<Rightarrow> app_state \<Rightarrow> effect list" where
  "deleteDraft confirmed net draftId s =
     WindowConfirm ''Are you sure you want to delete this draft?'' #
     (if \<not> confirmed then []
      else
        SetError None # Net (DeleteDraft draftId) #
        (if delete_draft net draftId then
           fetchDrafts net @
           (case currentDraft s of
              Some cur \<Rightarrow> if draft_id cur = draftId then createNewDraft else []
            | None \<Rightarrow> [])
         else [SetError (Some ''Failed to delete draft''),
               ConsoleError ''Error deleting draft:'']))"

definition generateAIContent :: "remote \<Rightarrow> app_state \<Rightarrow> effect list" where
  "generateAIContent net s =
     (if blank (aiPrompt s) then [SetError (Some ''Please enter a prompt for AI generation'')]
      else
        [SetIsGenerating True, SetError None, Net (PostGenerate (aiPrompt s) 150)] @
        (case post_generate net (aiPrompt s) 150 of
           Some generatedText \<Rightarrow>
             [UpdateContent (\<lambda>prevContent. prevContent @ [0x0A, 0x0A] @ generatedText),
              SetAiPrompt []]
         | None \<Rightarrow> [SetError (Some ''Failed to generate AI content''),
                    ConsoleError ''Error generating AI content:'']) @
        [SetIsGenerating False])"

text \<open>
  The three input fields: \<^verbatim>\<open>onChange={(e) => setTitle(e.target.value)}\<close>, and the same
  for the content and the prompt.
\<close>

definition onChangeTitle :: "jsstring \<Rightarrow> effect list" where
  "onChangeTitle v = [SetTitle v]"

definition onChangeContent :: "jsstring \<Rightarrow> effect list" where
  "onChangeContent v = [SetContent v]"

definition onChangeAiPrompt :: "jsstring \<Rightarrow> effect list" where
  "onChangeAiPrompt v = [SetAiPrompt v]"

subsection \<open>Derived notions\<close>

text \<open>
  The id the next save will address: \<^verbatim>\<open>currentDraft.id\<close> when a draft is bound, nothing
  when \<^verbatim>\<open>currentDraft\<close> is \<^verbatim>\<open>null\<close>.
\<close>

definition boundId :: "app_state \<Rightarrow> draft_id option" where
  "boundId s = map_option draft_id (currentDraft s)"

fun isCreate :: "request \<Rightarrow> bool" where
  "isCreate (PostDraft t c) = True"
| "isCreate r = False"

text \<open>
  Saves one after the other: each is called in the state the one before it left, and
  meets its own remote outcome. The result is every request issued, in order.
\<close>

fun saveDrafts :: "remote list \<Rightarrow> app_state \<Rightarrow> request list" where
  "saveDrafts [] s = []"
| "saveDrafts (net # nets) s =
     requests (saveDraft net s) @ saveDrafts nets (run (saveDraft net s) s)"

text \<open>
  The error slot in the course of a handler, read off its effects.

  \<open>clears_at_start\<close>: the handler's first effect, after its confirmation dialog and the
  raising of its busy flag, is \<^verbatim>\<open>setError(null)\<close>; no request, no other setter and no
  report comes before it.

  \<open>slot_at_requests e\<close>: what the slot holds at the moment of each request (and so
  while the request is pending), when it held \<open>e\<close> before the handler.

  \<open>writes_error\<close>: the handler calls \<^verbatim>\<open>setError\<close> at all.
\<close>

fun clears_at_start :: "effect list \<Rightarrow> bool" where
  "clears_at_start (SetError e # es) = (e = None)"
| "clears_at_start (WindowConfirm m # es) = clears_at_start es"
| "clears_at_start (SetIsLoading b # es) = clears_at_start es"
| "clears_at_start (SetIsGenerating b # es) = clears_at_start es"
| "clears_at_start es = False"

fun slot_at_requests :: "string option \<Rightarrow> effect list \<Rightarrow> string option list" where
  "slot_at_requests e [] = []"
| "slot_at_requests e (SetError e' # es) = slot_at_requests e' es"
| "slot_at_requests e (Net r # es) = e # slot_at_requests e es"
| "slot_at_requests e (x # es) = slot_at_requests e es"

fun writes_error :: "effect list \<Rightarrow> bool" where
  "writes_error [] = False"
| "writes_error (SetError e # es) = True"
| "writes_error (x # es) = writes_error es"

subsection \<open>Example data\<close>

definition offline :: remote where
  "offline = \<lparr>get_drafts = None, post_draft = (\<lambda>t c. None), put_draft = (\<lambda>i t c. None),
     delete_draft = (\<lambda>i. False), post_generate = (\<lambda>p n. None)\<rparr>"

definition stored :: "draft_id \<Rightarrow> jsstring \<Rightarrow> jsstring \<Rightarrow> draft" where
  "stored i t c = \<lparr>draft_id = i, draft_title = t, draft_content = c,
     created_at = js ''2024-05-01T10:00:00'', updated_at = js ''2024-05-01T10:00:00''\<rparr>"

definition online :: remote where
  "online = \<lparr>get_drafts = Some [stored ''d1'' (js ''T'') (js ''C'')],
     post_draft = (\<lambda>t c. Some (stored ''d1'' t c)),
     put_draft = (\<lambda>i t c. Some (stored i t c)),
     delete_draft = (\<lambda>i. True),
     post_generate = (\<lambda>p n. Some (js ''An old pond''))\<rparr>"

definition unsaved :: app_state where
  "unsaved = initial\<lparr>title := js ''T'', content := js ''C'', aiPrompt := js ''write a haiku''\<rparr>"

definition editing :: app_state where
  "editing = unsaved\<lparr>drafts := [stored ''d1'' (js ''T'') (js ''C'')],
     currentDraft := Some (stored ''d1'' (js ''T'') (js ''C''))\<rparr>"

text \<open>The state a failed save of \<open>editing\<close> leaves: the slot shows its message.\<close>

definition after_failed_save :: app_state where
  "after_failed_save = run (saveDraft offline editing) editing"

section \<open>Facts about effect lists\<close>

lemma requests_append [simp]: "requests (xs @ ys) = requests xs @ requests ys"
  by (induction xs rule: requests.induct) simp_all

lemma run_append [simp]: "run (xs @ ys) s = run ys (run xs s)"
  by (induction xs arbitrary: s) simp_all

lemma requests_fetchDrafts [simp]: "requests (fetchDrafts net) = [GetDrafts]"
  by (simp add: fetchDrafts_def split: option.split)

lemma run_fetchDrafts:
  "run (fetchDrafts net) s =
     (case get_drafts net of
        Some ds \<Rightarrow> s\<lparr>error := None, drafts := ds\<rparr>
      | None \<Rightarrow> s\<lparr>error := Some ''Failed to fetch drafts''\<rparr>)"
  by (simp add: fetchDrafts_def split: option.split)

lemma blank_iff: "blank s \<longleftrightarrow> (\<forall>c\<in>set s. trimmable c)"
proof
  assume "blank s"
  then have "dropWhile trimmable (rev (dropWhile trimmable s)) = []"
    by (simp add: blank_def trim_def)
  then have all: "\<forall>c\<in>set (dropWhile trimmable s). trimmable c"
    by (simp add: dropWhile_eq_Nil_conv)
  show "\<forall>c\<in>set s. trimmable c"
  proof (cases "dropWhile trimmable s")
    case Nil
    then show ?thesis by (simp add: dropWhile_eq_Nil_conv)
  next
    case (Cons c cs)
    then have "\<not> trimmable c" by (metis hd_dropWhile list.sel(1) list.distinct(1))
    moreover have "trimmable c" using all Cons by simp
    ultimately show ?thesis by simp
  qed
next
  assume "\<forall>c\<in>set s. trimmable c"
  then show "blank s" by (auto simp: blank_def trim_def dest: set_dropWhileD)
qed

lemmas blank_eval = blank_def trim_def js_def trimmable_def isWhiteSpace_def isLineTerminator_def

lemmas example_defs = initial_def unsaved_def editing_def stored_def online_def offline_def

subsection \<open>Saving a bound session\<close>

lemma saveDraft_keeps_buffers:
  "title (run (saveDraft net s) s) = title s \<and> content (run (saveDraft net s) s) = content s"
  by (simp add: saveDraft_def run_fetchDrafts split: option.splits)

lemma saveDraft_bound_requests:
  assumes "boundId s = Some X" and "\<not> blank (title s)"
  shows "requests (saveDraft net s) =
           PutDraft X (title s) (content s) #
           (case put_draft net X (title s) (content s) of Some d \<Rightarrow> [GetDrafts] | None \<Rightarrow> [])"
  using assms by (auto simp: saveDraft_def boundId_def split: option.splits)

lemma saveDraft_bound_after:
  assumes "boundId s = Some X" and "\<not> blank (title s)"
  shows "boundId (run (saveDraft net s) s) =
           (case put_draft net X (title s) (content s) of
              Some d \<Rightarrow> Some (draft_id d) | None \<Rightarrow> Some X)"
  using assms by (auto simp: saveDraft_def boundId_def run_fetchDrafts split: option.splits)

lemma saveDraft_stays_bound:
  "currentDraft s \<noteq> None \<Longrightarrow> currentDraft (run (saveDraft net s) s) \<noteq> None"
  by (auto simp: saveDraft_def run_fetchDrafts split: option.splits)

lemma saveDraft_bound_no_create:
  "currentDraft s \<noteq> None \<Longrightarrow> filter isCreate (requests (saveDraft net s)) = []"
  by (auto simp: saveDraft_def split: option.splits)

lemma saveDrafts_no_create:
  "currentDraft s \<noteq> None \<Longrightarrow> filter isCreate (saveDrafts nets s) = []"
proof (induction nets arbitrary: s)
  case Nil
  show ?case by simp
next
  case (Cons net nets)
  from Cons.prems have "currentDraft (run (saveDraft net s) s) \<noteq> None"
    by (rule saveDraft_stays_bound)
  then have "filter isCreate (saveDrafts nets (run (saveDraft net s) s)) = []"
    by (rule Cons.IH)
  with Cons.prems show ?case
    by (simp add: saveDraft_bound_no_create)
qed

lemma saveDrafts_bound:
  assumes "boundId s = Some X" and "\<not> blank (title s)"
    and "\<forall>n\<in>set nets. \<forall>d. put_draft n X (title s) (content s) = Some d \<longrightarrow> draft_id d = X"
  shows "saveDrafts nets s =
           concat (map (\<lambda>n. PutDraft X (title s) (content s) #
                          (case put_draft n X (title s) (content s) of
                             Some d \<Rightarrow> [GetDrafts] | None \<Rightarrow> [])) nets)"
  using assms
proof (induction nets arbitrary: s)
  case Nil
  show ?case by simp
next
  case (Cons net nets)
  let ?s' = "run (saveDraft net s) s"
  have buf: "title ?s' = title s" "content ?s' = content s"
    by (simp_all add: saveDraft_keeps_buffers)
  have "boundId ?s' = Some X"
    using Cons.prems by (auto simp: saveDraft_bound_after split: option.splits)
  moreover have "\<not> blank (title ?s')"
    using Cons.prems buf by simp
  moreover have "\<forall>n\<in>set nets. \<forall>d. put_draft n X (title ?s') (content ?s') = Some d \<longrightarrow> draft_id d = X"
    using Cons.prems buf by simp
  ultimately have "saveDrafts nets ?s' =
      concat (map (\<lambda>n. PutDraft X (title ?s') (content ?s') #
                     (case put_draft n X (title ?s') (content ?s') of
                        Some d \<Rightarrow> [GetDrafts] | None \<Rightarrow> [])) nets)"
    by (rule Cons.IH)
  with Cons.prems buf show ?case
    by (simp add: saveDraft_bound_requests)
qed

section \<open>Saving\<close>

text \<open>
  C1. A session that is not bound (\<open>boundId\<close> is null) and whose title is not blank after
  trimming: \<open>saveDraft\<close> issues exactly one create request, carrying the title and
  content buffers as they are; when that request succeeds the returned draft becomes
  \<open>currentDraft\<close>, so the session is bound to the returned id.
\<close>

theorem saveDraft_unbound_creates:
  assumes "boundId s = None" and "\<not> blank (title s)"
  shows "filter isCreate (requests (saveDraft net s)) = [PostDraft (title s) (content s)] \<and>
         requests (saveDraft net s) =
           PostDraft (title s) (content s) #
           (case post_draft net (title s) (content s) of Some d \<Rightarrow> [GetDrafts] | None \<Rightarrow> []) \<and>
         (\<forall>d. post_draft net (title s) (content s) = Some d \<longrightarrow>
            currentDraft (run (saveDraft net s) s) = Some d \<and>
            boundId (run (saveDraft net s) s) = Some (draft_id d))"
  using assms by (simp add: saveDraft_def boundId_def run_fetchDrafts split: option.splits)

theorem saveDraft_unbound_creates_witness:
  "filter isCreate (requests (saveDraft online unsaved)) = [PostDraft (js ''T'') (js ''C'')] \<and>
   currentDraft (run (saveDraft online unsaved) unsaved) = Some (stored ''d1'' (js ''T'') (js ''C'')) \<and>
   boundId (run (saveDraft online unsaved) unsaved) = Some ''d1''"
proof -
  have unbound: "boundId unsaved = None"
    by (simp add: boundId_def example_defs)
  have valid: "\<not> blank (title unsaved)"
    by (simp add: example_defs blank_eval)
  have ok: "post_draft online (title unsaved) (content unsaved) = Some (stored ''d1'' (js ''T'') (js ''C''))"
    by (simp add: example_defs)
  have buffers: "title unsaved = js ''T''" "content unsaved = js ''C''"
    by (simp_all add: example_defs)
  from saveDraft_unbound_creates [OF unbound valid, of online] ok buffers show ?thesis
    by (simp add: stored_def)
qed

text \<open>
  C2. A session bound to the id \<open>X\<close> whose title passes validation: \<open>saveDraft\<close> issues
  an update addressed to \<open>X\<close> with the current buffers, followed by the list refresh when
  the update succeeds, and no create. However many saves follow one another, none of
  them issues a create; and when the store answers an update of \<open>X\<close> with a draft whose
  id is \<open>X\<close> (a draft keeps its identity across updates), every one of them is an
  update of \<open>X\<close>.
\<close>

theorem saveDraft_bound_updates:
  assumes "boundId s = Some X" and "\<not> blank (title s)"
  shows "requests (saveDraft net s) =
           PutDraft X (title s) (content s) #
           (case put_draft net X (title s) (content s) of Some d \<Rightarrow> [GetDrafts] | None \<Rightarrow> []) \<and>
         filter isCreate (saveDrafts nets s) = [] \<and>
         ((\<forall>n\<in>set nets. \<forall>d. put_draft n X (title s) (content s) = Some d \<longrightarrow> draft_id d = X) \<longrightarrow>
            saveDrafts nets s =
              concat (map (\<lambda>n. PutDraft X (title s) (content s) #
                             (case put_draft n X (title s) (content s) of
                                Some d \<Rightarrow> [GetDrafts] | None \<Rightarrow> [])) nets))"
proof -
  from assms(1) have "currentDraft s \<noteq> None"
    by (auto simp: boundId_def)
  then have "filter isCreate (saveDrafts nets s) = []"
    by (rule saveDrafts_no_create)
  with assms show ?thesis
    by (simp add: saveDraft_bound_requests saveDrafts_bound)
qed

theorem saveDraft_bound_updates_witness:
  "requests (saveDraft online editing) = [PutDraft ''d1'' (js ''T'') (js ''C''), GetDrafts] \<and>
   saveDrafts [online, offline, online] editing =
     [PutDraft ''d1'' (js ''T'') (js ''C''), GetDrafts,
      PutDraft ''d1'' (js ''T'') (js ''C''),
      PutDraft ''d1'' (js ''T'') (js ''C''), GetDrafts]"
proof -
  have bound: "boundId editing = Some ''d1''"
    by (simp add: boundId_def example_defs)
  have valid: "\<not> blank (title editing)"
    by (simp add: example_defs blank_eval)
  have same_id: "\<forall>n\<in>set [online, offline, online].
      \<forall>d. put_draft n ''d1'' (title editing) (content editing) = Some d \<longrightarrow> draft_id d = ''d1''"
    by (auto simp: example_defs)
  have buffers: "title editing = js ''T''" "content editing = js ''C''"
    by (simp_all add: example_defs)
  have answers: "put_draft online ''d1'' (js ''T'') (js ''C'') = Some (stored ''d1'' (js ''T'') (js ''C''))"
    "put_draft offline ''d1'' (js ''T'') (js ''C'') = None"
    by (simp_all add: example_defs)
  from saveDraft_bound_updates [OF bound valid, of online "[online, offline, online]"] same_id
  show ?thesis
    by (simp add: buffers answers del: saveDrafts.simps)
qed

text \<open>
  C3. When the request of a save fails, in the create branch or in the update branch,
  the handler sets the error slot to the save failure message and logs the error; the
  bound draft is what it was before the call, and so is every other cell of the state
  (\<open>isLoading\<close> is back to false). No list refresh is issued.
\<close>

theorem saveDraft_request_fails:
  assumes "\<not> blank (title s)"
    and "(case currentDraft s of
            Some cur \<Rightarrow> put_draft net (draft_id cur) (title s) (content s)
          | None \<Rightarrow> post_draft net (title s) (content s)) = None"
  shows "run (saveDraft net s) s = s\<lparr>isLoading := False, error := Some ''Failed to save draft''\<rparr> \<and>
         currentDraft (run (saveDraft net s) s) = currentDraft s \<and>
         boundId (run (saveDraft net s) s) = boundId s \<and>
         ConsoleError ''Error saving draft:'' \<in> set (saveDraft net s) \<and>
         GetDrafts \<notin> set (requests (saveDraft net s))"
  using assms by (cases "currentDraft s") (simp_all add: saveDraft_def boundId_def)

theorem saveDraft_request_fails_witness:
  "run (saveDraft offline editing) editing =
     editing\<lparr>isLoading := False, error := Some ''Failed to save draft''\<rparr> \<and>
   currentDraft (run (saveDraft offline editing) editing) = currentDraft editing \<and>
   boundId (run (saveDraft offline editing) editing) = Some ''d1'' \<and>
   error (run (saveDraft offline editing) editing) = Some ''Failed to save draft'' \<and>
   GetDrafts \<notin> set (requests (saveDraft offline editing))"
proof -
  have valid: "\<not> blank (title editing)"
    by (simp add: example_defs blank_eval)
  have fails: "(case currentDraft editing of
        Some cur \<Rightarrow> put_draft offline (draft_id cur) (title editing) (content editing)
      | None \<Rightarrow> post_draft offline (title editing) (content editing)) = None"
    by (simp add: example_defs)
  have bound: "boundId editing = Some ''d1''"
    by (simp add: boundId_def example_defs)
  from saveDraft_request_fails [OF valid fails] bound show ?thesis
    by (simp add: boundId_def)
qed

text \<open>
  C7. A title that is empty or consists of white space only (every code unit is one that
  \<open>trim\<close> removes): \<open>saveDraft\<close> sets the error slot to the validation message, issues
  no request and changes nothing else.
\<close>

theorem saveDraft_blank_title:
  assumes "\<forall>c\<in>set (title s). trimmable c"
  shows "requests (saveDraft net s) = [] \<and>
         run (saveDraft net s) s = s\<lparr>error := Some ''Please enter a title for your draft''\<rparr>"
  using assms by (simp add: saveDraft_def blank_iff)

theorem saveDraft_blank_title_witness:
  "requests (saveDraft online (editing\<lparr>title := [0x20, 0x09, 0x3000]\<rparr>)) = [] \<and>
   run (saveDraft online (editing\<lparr>title := [0x20, 0x09, 0x3000]\<rparr>)) (editing\<lparr>title := [0x20, 0x09, 0x3000]\<rparr>) =
     editing\<lparr>title := [0x20, 0x09, 0x3000], error := Some ''Please enter a title for your draft''\<rparr>"
proof -
  have "\<forall>c\<in>set (title (editing\<lparr>title := [0x20, 0x09, 0x3000]\<rparr>)). trimmable c"
    by (simp add: trimmable_def isWhiteSpace_def)
  from saveDraft_blank_title [OF this, of online] show ?thesis by simp
qed

section \<open>Generating\<close>

text \<open>
  C4. When the generation request succeeds, the content buffer becomes the content it had,
  then the separator of two line feeds (one blank line), then the returned text: the
  content before is a prefix of the content after. The prompt field is emptied.
\<close>

theorem generateAIContent_appends:
  assumes "\<not> blank (aiPrompt s)"
    and "post_generate net (aiPrompt s) 150 = Some generatedText"
  shows "requests (generateAIContent net s) = [PostGenerate (aiPrompt s) 150] \<and>
         content (run (generateAIContent net s) s) = content s @ [0x0A, 0x0A] @ generatedText \<and>
         prefix (content s) (content (run (generateAIContent net s) s)) \<and>
         aiPrompt (run (generateAIContent net s) s) = []"
  using assms by (simp add: generateAIContent_def)

theorem generateAIContent_appends_witness:
  "content (run (generateAIContent online unsaved) unsaved) =
     js ''C'' @ [0x0A, 0x0A] @ js ''An old pond'' \<and>
   aiPrompt (run (generateAIContent online unsaved) unsaved) = []"
proof -
  have valid: "\<not> blank (aiPrompt unsaved)"
    by (simp add: example_defs blank_eval)
  have ok: "post_generate online (aiPrompt unsaved) 150 = Some (js ''An old pond'')"
    by (simp add: example_defs)
  have buffer: "content unsaved = js ''C''"
    by (simp add: example_defs)
  from generateAIContent_appends [OF valid ok] buffer show ?thesis
    by simp
qed

text \<open>
  C8. A prompt that is empty or consists of white space only: \<open>generateAIContent\<close> sets
  the error slot to the validation message, issues no request and leaves the content
  buffer (and every other cell) as it was.
\<close>

theorem generateAIContent_blank_prompt:
  assumes "\<forall>c\<in>set (aiPrompt s). trimmable c"
  shows "requests (generateAIContent net s) = [] \<and>
         run (generateAIContent net s) s =
           s\<lparr>error := Some ''Please enter a prompt for AI generation''\<rparr> \<and>
         content (run (generateAIContent net s) s) = content s"
  using assms by (simp add: generateAIContent_def blank_iff)

theorem generateAIContent_blank_prompt_witness:
  "requests (generateAIContent online initial) = [] \<and>
   run (generateAIContent online initial) initial =
     initial\<lparr>error := Some ''Please enter a prompt for AI generation''\<rparr> \<and>
   content (run (generateAIContent online initial) initial) = content initial"
proof -
  have "\<forall>c\<in>set (aiPrompt initial). trimmable c"
    by (simp add: initial_def)
  then show ?thesis
    by (rule generateAIContent_blank_prompt)
qed

text \<open>
  C9. When the generation request fails, the handler sets the error slot to the generation
  failure message; the content buffer and the prompt are what they were, so the same
  prompt can be sent again.
\<close>

theorem generateAIContent_request_fails:
  assumes "\<not> blank (aiPrompt s)"
    and "post_generate net (aiPrompt s) 150 = None"
  shows "run (generateAIContent net s) s =
           s\<lparr>isGenerating := False, error := Some ''Failed to generate AI content''\<rparr> \<and>
         content (run (generateAIContent net s) s) = content s \<and>
         aiPrompt (run (generateAIContent net s) s) = aiPrompt s"
  using assms by (simp add: generateAIContent_def)

theorem generateAIContent_request_fails_witness:
  "run (generateAIContent offline unsaved) unsaved =
     unsaved\<lparr>isGenerating := False, error := Some ''Failed to generate AI content''\<rparr> \<and>
   content (run (generateAIContent offline unsaved) unsaved) = content unsaved \<and>
   aiPrompt (run (generateAIContent offline unsaved) unsaved) = aiPrompt unsaved"
proof -
  have valid: "\<not> blank (aiPrompt unsaved)"
    by (simp add: example_defs blank_eval)
  have fails: "post_generate offline (aiPrompt unsaved) 150 = None"
    by (simp add: example_defs)
  from valid fails show ?thesis
    by (rule generateAIContent_request_fails)
qed

section \<open>Deleting\<close>

text \<open>
  C10. When the confirmation dialog is declined, \<open>deleteDraft\<close> issues no network
  request and leaves the whole state as it was: the draft cache, the bound draft, both
  buffers and the error slot.
\<close>

theorem deleteDraft_declined:
  "requests (deleteDraft False net draftId s) = [] \<and>
   run (deleteDraft False net draftId s) s = s"
  by (simp add: deleteDraft_def)

theorem deleteDraft_declined_witness:
  "requests (deleteDraft False online ''d1'' after_failed_save) = [] \<and>
   run (deleteDraft False online ''d1'' after_failed_save) after_failed_save = after_failed_save"
  using deleteDraft_declined [of online "''d1''" after_failed_save] by simp

text \<open>
  C6, as the claim states it: for every id, \<open>deleteDraft\<close> issues a delete request. It
  does not when the confirmation dialog is declined.
\<close>

theorem deleteDraft_declined_no_request:
  "DeleteDraft ''d1'' \<notin> set (requests (deleteDraft False online ''d1'' editing))"
  by (simp add: deleteDraft_def)

text \<open>
  C6, amended. Once the confirmation dialog is accepted, \<open>deleteDraft\<close> issues a delete
  request for the id. When it succeeds the list is refreshed (the cache becomes the
  fetched list, or stays when the fetch fails), and a session bound to that id is reset
  to unbound with empty buffers, any other session being left alone. When it fails the
  error slot gets the delete failure message and the cache and the session are as before.
\<close>

theorem deleteDraft_confirmed:
  "requests (deleteDraft True net draftId s) =
     DeleteDraft draftId # (if delete_draft net draftId then [GetDrafts] else []) \<and>
   (if delete_draft net draftId then
      drafts (run (deleteDraft True net draftId s) s) =
        (case get_drafts net of Some ds \<Rightarrow> ds | None \<Rightarrow> drafts s) \<and>
      (if boundId s = Some draftId then
         currentDraft (run (deleteDraft True net draftId s) s) = None \<and>
         title (run (deleteDraft True net draftId s) s) = [] \<and>
         content (run (deleteDraft True net draftId s) s) = []
       else
         currentDraft (run (deleteDraft True net draftId s) s) = currentDraft s \<and>
         title (run (deleteDraft True net draftId s) s) = title s \<and>
         content (run (deleteDraft True net draftId s) s) = content s)
    else run (deleteDraft True net draftId s) s = s\<lparr>error := Some ''Failed to delete draft''\<rparr>)"
  by (simp add: deleteDraft_def boundId_def run_fetchDrafts createNewDraft_def split: option.splits)

theorem deleteDraft_confirmed_witness:
  "requests (deleteDraft True online ''d1'' editing) = [DeleteDraft ''d1'', GetDrafts] \<and>
   currentDraft (run (deleteDraft True online ''d1'' editing) editing) = None \<and>
   title (run (deleteDraft True online ''d1'' editing) editing) = [] \<and>
   content (run (deleteDraft True online ''d1'' editing) editing) = [] \<and>
   run (deleteDraft True offline ''d1'' editing) editing =
     editing\<lparr>error := Some ''Failed to delete draft''\<rparr>"
proof -
  have answers: "delete_draft online ''d1''" "\<not> delete_draft offline ''d1''"
    by (simp_all add: example_defs)
  have bound: "boundId editing = Some ''d1''"
    by (simp add: boundId_def example_defs)
  from deleteDraft_confirmed [of online "''d1''" editing]
    deleteDraft_confirmed [of offline "''d1''" editing]
  show ?thesis
    by (simp add: answers bound)
qed

section \<open>The error slot across handlers\<close>

text \<open>
  C5, as the claim states it: every operation the user starts clears the error slot at
  its start, so no stale message stays on display. Four kinds of operation do otherwise.
  A delete that the user declines and an edit of an input field never write the slot:
  the message of the failed save before them is still shown afterwards. A save with a
  blank title and a generation with a blank prompt do not clear the slot but put their
  validation message there. And \<open>createNewDraft\<close> and \<open>loadDraft\<close> clear the slot with
  their last call, after they have reset or loaded the session, not with their first.
\<close>

theorem error_slot_not_cleared_at_start:
  "error after_failed_save = Some ''Failed to save draft'' \<and>
   error (run (deleteDraft False online ''d1'' after_failed_save) after_failed_save) =
     Some ''Failed to save draft'' \<and>
   error (run (onChangeTitle (js ''T2'')) after_failed_save) = Some ''Failed to save draft'' \<and>
   error (run (onChangeContent (js ''C2'')) after_failed_save) = Some ''Failed to save draft'' \<and>
   error (run (onChangeAiPrompt (js ''P2'')) after_failed_save) = Some ''Failed to save draft'' \<and>
   SetError None \<notin> set (saveDraft online (after_failed_save\<lparr>title := []\<rparr>)) \<and>
   error (run (saveDraft online (after_failed_save\<lparr>title := []\<rparr>)) (after_failed_save\<lparr>title := []\<rparr>)) =
     Some ''Please enter a title for your draft'' \<and>
   SetError None \<notin> set (generateAIContent online (after_failed_save\<lparr>aiPrompt := []\<rparr>)) \<and>
   error (run (generateAIContent online (after_failed_save\<lparr>aiPrompt := []\<rparr>))
            (after_failed_save\<lparr>aiPrompt := []\<rparr>)) =
     Some ''Please enter a prompt for AI generation'' \<and>
   \<not> clears_at_start createNewDraft \<and>
   last createNewDraft = SetError None \<and>
   \<not> clears_at_start (loadDraft (stored ''d1'' (js ''T'') (js ''C''))) \<and>
   last (loadDraft (stored ''d1'' (js ''T'') (js ''C''))) = SetError None"
  by (simp add: deleteDraft_def onChangeTitle_def onChangeContent_def onChangeAiPrompt_def
      createNewDraft_def loadDraft_def after_failed_save_def saveDraft_def
      generateAIContent_def example_defs blank_eval)

text \<open>
  C5, amended. Every user-initiated operation that goes on to the network (the list
  fetch, a save with a non-blank title, a delete once its dialog is accepted, a
  generation with a non-blank prompt) clears the error slot at its start, before that
  operation's own work begins: the clear is its first effect after the dialog and the
  busy flag. So the slot is empty at each of its requests, whatever it showed before,
  and after the operation it holds what this attempt reported (its failure message, or
  nothing), never a message left by an earlier operation.

  The other operations: \<open>createNewDraft\<close> and \<open>loadDraft\<close> issue no request and clear the
  slot with the last call of their one synchronous batch; a save or a generation
  stopped by validation does not clear the slot but overwrites it with its validation
  message; a declined delete and an edit of the title, content or prompt field do not
  write the slot, so it shows what it showed before.
\<close>

theorem error_slot_cleared:
  "clears_at_start (fetchDrafts net) \<and>
   slot_at_requests e0 (fetchDrafts net) = [None] \<and>
   error (run (fetchDrafts net) s) =
     (case get_drafts net of Some ds \<Rightarrow> None | None \<Rightarrow> Some ''Failed to fetch drafts'') \<and>
   (if blank (title s) then
      SetError None \<notin> set (saveDraft net s) \<and>
      error (run (saveDraft net s) s) = Some ''Please enter a title for your draft''
    else
      clears_at_start (saveDraft net s) \<and>
      slot_at_requests e0 (saveDraft net s) = map (\<lambda>r. None) (requests (saveDraft net s)) \<and>
      error (run (saveDraft net s) s) =
        (case (case currentDraft s of
                 Some cur \<Rightarrow> put_draft net (draft_id cur) (title s) (content s)
               | None \<Rightarrow> post_draft net (title s) (content s)) of
           Some d \<Rightarrow> None
         | None \<Rightarrow> Some ''Failed to save draft'')) \<and>
   clears_at_start (deleteDraft True net draftId s) \<and>
   slot_at_requests e0 (deleteDraft True net draftId s) =
     map (\<lambda>r. None) (requests (deleteDraft True net draftId s)) \<and>
   error (run (deleteDraft True net draftId s) s) =
     (if delete_draft net draftId then
        (if boundId s = Some draftId then None
         else case get_drafts net of Some ds \<Rightarrow> None | None \<Rightarrow> Some ''Failed to fetch drafts'')
      else Some ''Failed to delete draft'') \<and>
   (if blank (aiPrompt s) then
      SetError None \<notin> set (generateAIContent net s) \<and>
      error (run (generateAIContent net s) s) = Some ''Please enter a prompt for AI generation''
    else
      clears_at_start (generateAIContent net s) \<and>
      slot_at_requests e0 (generateAIContent net s) = [None] \<and>
      error (run (generateAIContent net s) s) =
        (case post_generate net (aiPrompt s) 150 of
           Some g \<Rightarrow> None
         | None \<Rightarrow> Some ''Failed to generate AI content'')) \<and>
   requests createNewDraft = [] \<and> last createNewDraft = SetError None \<and>
   error (run createNewDraft s) = None \<and>
   requests (loadDraft d) = [] \<and> last (loadDraft d) = SetError None \<and>
   error (run (loadDraft d) s) = None \<and>
   \<not> writes_error (deleteDraft False net draftId s) \<and>
   error (run (deleteDraft False net draftId s) s) = error s \<and>
   \<not> writes_error (onChangeTitle v) \<and> error (run (onChangeTitle v) s) = error s \<and>
   \<not> writes_error (onChangeContent v) \<and> error (run (onChangeContent v) s) = error s \<and>
   \<not> writes_error (onChangeAiPrompt v) \<and> error (run (onChangeAiPrompt v) s) = error s"
proof -
  have fetch: "clears_at_start (fetchDrafts net)"
    "slot_at_requests e0 (fetchDrafts net) = [None]"
    "error (run (fetchDrafts net) s) =
       (case get_drafts net of Some ds \<Rightarrow> None | None \<Rightarrow> Some ''Failed to fetch drafts'')"
    by (simp_all add: fetchDrafts_def split: option.split)
  have save: "if blank (title s) then
      SetError None \<notin> set (saveDraft net s) \<and>
      error (run (saveDraft net s) s) = Some ''Please enter a title for your draft''
    else
      clears_at_start (saveDraft net s) \<and>
      slot_at_requests e0 (saveDraft net s) = map (\<lambda>r. None) (requests (saveDraft net s)) \<and>
      error (run (saveDraft net s) s) =
        (case (case currentDraft s of
                 Some cur \<Rightarrow> put_draft net (draft_id cur) (title s) (content s)
               | None \<Rightarrow> post_draft net (title s) (content s)) of
           Some d \<Rightarrow> None
         | None \<Rightarrow> Some ''Failed to save draft'')"
    by (simp add: saveDraft_def fetchDrafts_def split: option.split)
  have delete: "clears_at_start (deleteDraft True net draftId s)"
    "slot_at_requests e0 (deleteDraft True net draftId s) =
       map (\<lambda>r. None) (requests (deleteDraft True net draftId s))"
    "error (run (deleteDraft True net draftId s) s) =
       (if delete_draft net draftId then
          (if boundId s = Some draftId then None
           else case get_drafts net of Some ds \<Rightarrow> None | None \<Rightarrow> Some ''Failed to fetch drafts'')
        else Some ''Failed to delete draft'')"
    by (simp_all add: deleteDraft_def fetchDrafts_def createNewDraft_def boundId_def
        split: option.split)
  have gen: "if blank (aiPrompt s) then
      SetError None \<notin> set (generateAIContent net s) \<and>
      error (run (generateAIContent net s) s) = Some ''Please enter a prompt for AI generation''
    else
      clears_at_start (generateAIContent net s) \<and>
      slot_at_requests e0 (generateAIContent net s) = [None] \<and>
      error (run (generateAIContent net s) s) =
        (case post_generate net (aiPrompt s) 150 of
           Some g \<Rightarrow> None
         | None \<Rightarrow> Some ''Failed to generate AI content'')"
    by (simp add: generateAIContent_def split: option.split)
  have local: "requests createNewDraft = []" "last createNewDraft = SetError None"
    "error (run createNewDraft s) = None"
    "requests (loadDraft d) = []" "last (loadDraft d) = SetError None"
    "error (run (loadDraft d) s) = None"
    by (simp_all add: createNewDraft_def loadDraft_def)
  have untouched: "\<not> writes_error (deleteDraft False net draftId s)"
    "error (run (deleteDraft False net draftId s) s) = error s"
    "\<not> writes_error (onChangeTitle v)" "error (run (onChangeTitle v) s) = error s"
    "\<not> writes_error (onChangeContent v)" "error (run (onChangeContent v) s) = error s"
    "\<not> writes_error (onChangeAiPrompt v)" "error (run (onChangeAiPrompt v) s) = error s"
    by (simp_all add: deleteDraft_def onChangeTitle_def onChangeContent_def onChangeAiPrompt_def)
  from fetch save delete gen local untouched show ?thesis
    by (simp only: simp_thms)
qed

theorem error_slot_cleared_witness:
  "clears_at_start (saveDraft online after_failed_save) \<and>
   slot_at_requests (error after_failed_save) (saveDraft online after_failed_save) =
     [None, None] \<and>
   error (run (saveDraft online after_failed_save) after_failed_save) = None \<and>
   clears_at_start (deleteDraft True offline ''d1'' after_failed_save) \<and>
   slot_at_requests (error after_failed_save) (deleteDraft True offline ''d1'' after_failed_save) =
     [None] \<and>
   error (run (deleteDraft True offline ''d1'' after_failed_save) after_failed_save) =
     Some ''Failed to delete draft''"
proof -
  have stale: "error after_failed_save = Some ''Failed to save draft''"
    by (simp add: after_failed_save_def saveDraft_def example_defs blank_eval)
  have valid: "\<not> blank (title after_failed_save)"
    by (simp add: after_failed_save_def saveDraft_keeps_buffers example_defs blank_eval)
  have bound: "currentDraft after_failed_save = Some (stored ''d1'' (js ''T'') (js ''C''))"
    by (simp add: after_failed_save_def saveDraft_def example_defs blank_eval)
  have buffers: "title after_failed_save = js ''T''" "content after_failed_save = js ''C''"
    by (simp_all add: after_failed_save_def saveDraft_keeps_buffers example_defs)
  have answers: "put_draft online ''d1'' (js ''T'') (js ''C'') = Some (stored ''d1'' (js ''T'') (js ''C''))"
    "\<not> delete_draft offline ''d1''"
    by (simp_all add: example_defs)
  have reqs: "requests (saveDraft online after_failed_save) =
      [PutDraft ''d1'' (js ''T'') (js ''C''), GetDrafts]"
    "requests (deleteDraft True offline ''d1'' after_failed_save) = [DeleteDraft ''d1'']"
    using valid bound buffers answers
    by (simp_all add: saveDraft_def deleteDraft_def stored_def)
  from error_slot_cleared [of online "Some ''Failed to save draft''" after_failed_save "''d1''"]
    error_slot_cleared [of offline "Some ''Failed to save draft''" after_failed_save "''d1''"]
  show ?thesis
    using stale valid bound buffers answers reqs
    by (simp add: stored_def)
qed

end
